theory Spec2Isabelle
  imports Main "HOL-Library.Word" "HOL-Library.Signed_Division"
begin

section \<open>Element types\<close>

text \<open>
  The library is generic in the element type \<open>T\<close> of the wrapped collection
  (\<open>value_type\<close>). All it asks of \<open>T\<close> are the C++ operators that its macros
  instantiate. An element type is therefore a table of operators:
  \<^item> \<open>binary\<close>: the value of \<open>a op b\<close> for the nine arithmetic and bitwise operators.
    The compound form \<open>a op= b\<close> stores that same value in \<open>a\<close> (the usual contract
    of an element type, and how \<open>Element\<close> of Test.cpp defines \<open>+\<close> from \<open>+=\<close>);
  \<^item> \<open>relation\<close>: the truth value of \<open>a op b\<close> for the logical and relational operators;
  \<^item> \<open>moved_from\<close>: what is left in an object after \<open>std::move\<close> took its value;
  \<^item> \<open>from_bool\<close>: the implicit conversion \<open>bool \<rightarrow> T\<close> that binds a \<open>bool\<close> to a
    parameter of type \<open>T\<close>, \<open>None\<close> where \<open>T\<close> has none;
  \<^item> \<open>assigned_bool\<close>: the value of type \<open>T\<close> that \<open>x = b\<close> and \<open>x op= b\<close> take from a
    right-hand side \<open>b\<close> of type \<open>bool\<close>, \<open>None\<close> where that does not compile.
\<close>

datatype arith_operator =
  Plus | Minus | Times | Slash | Bar | Amp | Caret | ShiftLeft | ShiftRight

datatype rel_operator =
  AmpAmp | BarBar | EqEq | NotEq | Less | LessEq | Greater | GreaterEq

record 'a element =
  binary :: "arith_operator \<Rightarrow> 'a \<Rightarrow> 'a \<Rightarrow> 'a"
  relation :: "rel_operator \<Rightarrow> 'a \<Rightarrow> 'a \<Rightarrow> bool"
  moved_from :: "'a \<Rightarrow> 'a"
  from_bool :: "bool \<Rightarrow> 'a option"
  assigned_bool :: "bool \<Rightarrow> 'a option"

text \<open>
  \<open>std::int32_t\<close> as a 32-bit word read in two's complement (\<open>sint\<close>). Division
  truncates towards zero (\<open>sdiv\<close> on the signed values); the cases C++
  leaves undefined (division by zero, a shift count outside \<open>0..31\<close>, signed overflow)
  take the value the word operations give them and are used by no statement below.
\<close>

type_synonym int32_t = "32 word"

definition int32 :: "int32_t element" where
  "int32 = \<lparr>
     binary = (\<lambda>s a b. case s of
         Plus \<Rightarrow> a + b
       | Minus \<Rightarrow> a - b
       | Times \<Rightarrow> a * b
       | Slash \<Rightarrow> word_of_int (sint a sdiv sint b)
       | Bar \<Rightarrow> or a b
       | Amp \<Rightarrow> and a b
       | Caret \<Rightarrow> xor a b
       | ShiftLeft \<Rightarrow> push_bit (unat b) a
       | ShiftRight \<Rightarrow> signed_drop_bit (unat b) a),
     relation = (\<lambda>s a b. case s of
         AmpAmp \<Rightarrow> a \<noteq> 0 \<and> b \<noteq> 0
       | BarBar \<Rightarrow> \<not> (a = 0 \<and> b = 0)
       | EqEq \<Rightarrow> a = b
       | NotEq \<Rightarrow> \<not> (a = b)
       | Less \<Rightarrow> sint a < sint b
       | LessEq \<Rightarrow> sint a \<le> sint b
       | Greater \<Rightarrow> sint b < sint a
       | GreaterEq \<Rightarrow> sint b \<le> sint a),
     moved_from = (\<lambda>a. a),
     from_bool = (\<lambda>b. Some (if b then 1 else 0)),
     assigned_bool = (\<lambda>b. Some (if b then 1 else 0)) \<rparr>"

text \<open>
  \<open>std::string\<close> compares lexicographically, character by character as unsigned bytes;
  a proper prefix is less.
\<close>

fun string_less :: "string \<Rightarrow> string \<Rightarrow> bool" where
  "string_less [] [] = False"
| "string_less [] (y # ys) = True"
| "string_less (x # xs) [] = False"
| "string_less (x # xs) (y # ys) =
     ((of_char x :: nat) < of_char y \<or> (x = y \<and> string_less xs ys))"

text \<open>
  \<open>std::string\<close> as a \<open>string\<close>. Of the arithmetic operators it has \<open>+\<close> only
  (concatenation); it has the six comparisons and neither \<open>&&\<close> nor \<open>||\<close>. An expression
  using an operator the type lacks does not compile, so the entries for \<open>- * / | & ^ << >>\<close>,
  \<open>&&\<close> and \<open>||\<close> are placeholders that no statement below consults. A moved-from string
  is left empty. No constructor converts a \<open>bool\<close>, but \<open>operator=(char)\<close> and
  \<open>operator+=(char)\<close> take one as the character 1 or 0.
\<close>

definition std_string :: "string element" where
  "std_string = \<lparr>
     binary = (\<lambda>s a b. case s of Plus \<Rightarrow> a @ b | _ \<Rightarrow> a),
     relation = (\<lambda>s a b. case s of
         EqEq \<Rightarrow> a = b
       | NotEq \<Rightarrow> \<not> (a = b)
       | Less \<Rightarrow> string_less a b
       | LessEq \<Rightarrow> \<not> string_less b a
       | Greater \<Rightarrow> string_less b a
       | GreaterEq \<Rightarrow> \<not> string_less a b
       | _ \<Rightarrow> False),
     moved_from = (\<lambda>a. []),
     from_bool = (\<lambda>b. None),
     assigned_bool = (\<lambda>b. Some [if b then CHR 0x01 else CHR 0x00]) \<rparr>"

text \<open>
  An element type a caller may bring: a level whose \<open>+\<close> and \<open>+=\<close> saturate at 10, as a
  clamped sample or a percentage does. It has \<open>+\<close> and the six comparisons; the other
  entries are placeholders as above, and nothing converts a \<open>bool\<close>. Its \<open>+\<close> is not
  associative, like that of \<open>float\<close> (the member \<open>m_float\<close> of \<open>Element\<close> in Test.cpp).
\<close>

definition saturating :: "int element" where
  "saturating = \<lparr>
     binary = (\<lambda>s a b. case s of Plus \<Rightarrow> min 10 (a + b) | _ \<Rightarrow> a),
     relation = (\<lambda>s a b. case s of
         EqEq \<Rightarrow> a = b
       | NotEq \<Rightarrow> \<not> (a = b)
       | Less \<Rightarrow> a < b
       | LessEq \<Rightarrow> a \<le> b
       | Greater \<Rightarrow> b < a
       | GreaterEq \<Rightarrow> b \<le> a
       | _ \<Rightarrow> False),
     moved_from = (\<lambda>a. a),
     from_bool = (\<lambda>b. None),
     assigned_bool = (\<lambda>b. None) \<rparr>"

section \<open>Operation tags\<close>

text \<open>
  The first \<open>CREATE_BINARY_OPERATION\<close> macro makes one struct per line
  \<open>(name, operator, assign operator)\<close>; the second, one per line \<open>(name, operator)\<close>.
\<close>

datatype arith_tag = ADD | SUB | MUL | DIV | LOR | LAND | LXOR | SHL | SHR

datatype rel_tag = AND | OR | EQ | NEQ | LT | LE | GT | GE

fun arith_operator_of :: "arith_tag \<Rightarrow> arith_operator" where
  "arith_operator_of ADD = Plus"
| "arith_operator_of SUB = Minus"
| "arith_operator_of MUL = Times"
| "arith_operator_of DIV = Slash"
| "arith_operator_of LOR = Bar"
| "arith_operator_of LAND = Amp"
| "arith_operator_of LXOR = Caret"
| "arith_operator_of SHL = ShiftLeft"
| "arith_operator_of SHR = ShiftRight"

fun rel_operator_of :: "rel_tag \<Rightarrow> rel_operator" where
  "rel_operator_of AND = AmpAmp"
| "rel_operator_of OR = BarBar"
| "rel_operator_of EQ = EqEq"
| "rel_operator_of NEQ = NotEq"
| "rel_operator_of LT = Less"
| "rel_operator_of LE = LessEq"
| "rel_operator_of GT = Greater"
| "rel_operator_of GE = GreaterEq"

text \<open>
  An argument of \<open>apply\<close> is an lvalue (it binds to \<open>const T&\<close>) or an rvalue (it binds
  to \<open>T&&\<close>); the pair of categories selects one of the four overloads. A call returns
  its result together with the values the two argument objects hold afterwards.
\<close>

datatype category = Lvalue | Rvalue

record ('r, 'a) applied =
  result :: 'r
  left_after :: 'a
  right_after :: 'a

text \<open>
  The arithmetic and bitwise tags, in the order of the source:
  \<^verbatim>\<open>apply(const T& a, const T& b) { return a op b; }\<close>
  \<^verbatim>\<open>apply(T&&      a, const T& b) { a op= b; return std::move(a); }\<close>
  \<^verbatim>\<open>apply(const T& a, T&&      b) { b op= a; return std::move(b); }\<close>
  \<^verbatim>\<open>apply(T&&      a, T&&      b) { a op= b; return std::move(a); }\<close>
\<close>

fun apply_arith ::
  "'a element \<Rightarrow> arith_tag \<Rightarrow> category \<times> 'a \<Rightarrow> category \<times> 'a \<Rightarrow> ('a, 'a) applied" where
  "apply_arith el t (Lvalue, a) (Lvalue, b) =
     \<lparr>result = binary el (arith_operator_of t) a b, left_after = a, right_after = b\<rparr>"
| "apply_arith el t (Rvalue, a) (Lvalue, b) =
     (let a' = binary el (arith_operator_of t) a b
      in \<lparr>result = a', left_after = moved_from el a', right_after = b\<rparr>)"
| "apply_arith el t (Lvalue, a) (Rvalue, b) =
     (let b' = binary el (arith_operator_of t) b a
      in \<lparr>result = b', left_after = a, right_after = moved_from el b'\<rparr>)"
| "apply_arith el t (Rvalue, a) (Rvalue, b) =
     (let a' = binary el (arith_operator_of t) a b
      in \<lparr>result = a', left_after = moved_from el a', right_after = b\<rparr>)"

text \<open>
  The logical and relational tags: each of the four overloads is
  \<^verbatim>\<open>{ return a op b; }\<close> with a \<open>bool\<close> result.
\<close>

fun apply_rel ::
  "'a element \<Rightarrow> rel_tag \<Rightarrow> category \<times> 'a \<Rightarrow> category \<times> 'a \<Rightarrow> (bool, 'a) applied" where
  "apply_rel el t (Lvalue, a) (Lvalue, b) =
     \<lparr>result = relation el (rel_operator_of t) a b, left_after = a, right_after = b\<rparr>"
| "apply_rel el t (Rvalue, a) (Lvalue, b) =
     \<lparr>result = relation el (rel_operator_of t) a b, left_after = a, right_after = b\<rparr>"
| "apply_rel el t (Lvalue, a) (Rvalue, b) =
     \<lparr>result = relation el (rel_operator_of t) a b, left_after = a, right_after = b\<rparr>"
| "apply_rel el t (Rvalue, a) (Rvalue, b) =
     \<lparr>result = relation el (rel_operator_of t) a b, left_after = a, right_after = b\<rparr>"

section \<open>Collections, wrappers and expression nodes\<close>

text \<open>
  The caller's collections live in a memory, addressed by number: wrappers and nodes hold
  references, so two of them may name the same collection. The state also keeps the log
  of the element reads made while the operands of an expression are indexed, as an
  instrumented element type would count them: \<open>(c, i)\<close> is one read of element \<open>i\<close> of
  collection \<open>c\<close>.
\<close>

record 'a state =
  memory :: "nat \<Rightarrow> 'a list"
  leaf_reads :: "(nat \<times> nat) list"

datatype error =
  OutOfRange | UnboundReference | NoConversion | NoMatchingOverload | AmbiguousOverload

text \<open>
  \<open>Container\<close> has one member, the reference \<open>COLLECTION& m_container\<close>. \<open>None\<close> is
  a reference that no constructor initialiser bound.
\<close>

record Container =
  m_container :: "nat option"

text \<open>
  \<open>BinaryExpression<LeftExpr, BinaryOp, RightExpr>\<close>: the two operands and, as template
  parameter, the operation tag. An operand is a wrapper, a plain collection (anything with
  \<open>size()\<close> and \<open>[]\<close> can stand on the right of an operator) or another node.
\<close>

datatype tag = Arith arith_tag | Rel rel_tag

datatype operand =
    Wrapper Container
  | Collection nat
  | Expression binary_expression
and binary_expression =
    BinaryExpression (m_left: operand) (BinaryOp: tag) (m_right: operand)

text \<open>
  What an indexing expression yields: a temporary of the element type, a reference to an
  element of a collection, or a temporary \<open>bool\<close>.
\<close>

datatype 'a indexed = Temporary 'a | Reference nat nat | Boolean bool

text \<open>
  The collection's own \<open>operator[]\<close> returns a reference to the element (the contract a
  wrapped collection satisfies): the place \<open>(c, i)\<close>, with nothing read yet. An index
  outside the collection is undefined behaviour in the source: the error \<open>OutOfRange\<close>
  here.
\<close>

definition collection_index :: "'a state \<Rightarrow> nat \<Rightarrow> nat \<Rightarrow> error + nat \<times> nat" where
  "collection_index st c i =
     (if i < length (memory st c) then Inr (c, i) else Inl OutOfRange)"

text \<open>
  \<^verbatim>\<open>auto operator[] (size_type i) { return m_container[i]; }\<close> and its \<open>const\<close> twin:
  the return type \<open>auto\<close> drops the reference, so the element is read and copied into a
  temporary.
\<close>

definition Container_index :: "'a state \<Rightarrow> Container \<Rightarrow> nat \<Rightarrow> error + 'a indexed \<times> 'a state" where
  "Container_index st this i =
     (case m_container this of
        None \<Rightarrow> Inl UnboundReference
      | Some c \<Rightarrow>
          (case collection_index st c i of
             Inl e \<Rightarrow> Inl e
           | Inr (c', i') \<Rightarrow>
               Inr (Temporary (memory st c' ! i'),
                    st\<lparr>leaf_reads := leaf_reads st @ [(c', i')]\<rparr>)))"

text \<open>
  Assigning through the result of an indexing expression: a reference writes the element
  of the collection; a temporary takes the value and is discarded.
\<close>

fun store_through :: "'a state \<Rightarrow> 'a indexed \<Rightarrow> 'a \<Rightarrow> 'a state" where
  "store_through st (Reference c i) v = st\<lparr>memory := (memory st)(c := (memory st c)[i := v])\<rparr>"
| "store_through st (Temporary x) v = st"
| "store_through st (Boolean b) v = st"

text \<open>
  Passing an indexed value as an argument of type \<open>T\<close>: a temporary binds to \<open>T&&\<close>, a
  reference to \<open>const T&\<close> (the callee reads the element through it, once), a \<open>bool\<close> is
  converted to a temporary \<open>T\<close> where \<open>T\<close> allows it.
\<close>

fun argument :: "'a element \<Rightarrow> 'a state \<Rightarrow> 'a indexed \<Rightarrow> error + (category \<times> 'a) \<times> 'a state" where
  "argument el st (Temporary v) = Inr ((Rvalue, v), st)"
| "argument el st (Reference c i) =
     Inr ((Lvalue, memory st c ! i), st\<lparr>leaf_reads := leaf_reads st @ [(c, i)]\<rparr>)"
| "argument el st (Boolean b) =
     (case from_bool el b of None \<Rightarrow> Inl NoConversion | Some v \<Rightarrow> Inr ((Rvalue, v), st))"

text \<open>
  The read still to come through an indexed value: a reference is read when it is passed
  on, a temporary was read when it was made.
\<close>

fun pending :: "'a indexed \<Rightarrow> nat \<times> nat \<Rightarrow> nat" where
  "pending (Reference c i) p = (if p = (c, i) then 1 else 0)"
| "pending (Temporary v) p = 0"
| "pending (Boolean b) p = 0"

text \<open>\<open>BinaryOp::apply\<close> on two arguments; the temporaries it may change die with the call.\<close>

fun apply_tag :: "'a element \<Rightarrow> tag \<Rightarrow> category \<times> 'a \<Rightarrow> category \<times> 'a \<Rightarrow> 'a indexed" where
  "apply_tag el (Arith t) a b = Temporary (result (apply_arith el t a b))"
| "apply_tag el (Rel t) a b = Boolean (result (apply_rel el t a b))"

text \<open>
  \<^verbatim>\<open>auto operator [](std::size_t index) const { return BinaryOp::apply(le()[index], re()[index]); }\<close>
  The order in which the two operands are indexed is unspecified in C++; left first here.
\<close>

fun index_operand :: "'a element \<Rightarrow> 'a state \<Rightarrow> operand \<Rightarrow> nat \<Rightarrow> error + 'a indexed \<times> 'a state"
and index_expression :: "'a element \<Rightarrow> 'a state \<Rightarrow> binary_expression \<Rightarrow> nat \<Rightarrow> error + 'a indexed \<times> 'a state"
where
  "index_operand el st (Wrapper w) i = Container_index st w i"
| "index_operand el st (Collection c) i =
     (case collection_index st c i of
        Inl e \<Rightarrow> Inl e
      | Inr (c', i') \<Rightarrow> Inr (Reference c' i', st))"
| "index_operand el st (Expression e) i = index_expression el st e i"
| "index_expression el st (BinaryExpression l t r) i =
     (case index_operand el st l i of
        Inl e \<Rightarrow> Inl e
      | Inr (x, st1) \<Rightarrow>
          (case index_operand el st1 r i of
             Inl e \<Rightarrow> Inl e
           | Inr (y, st2) \<Rightarrow>
               (case argument el st2 x of
                  Inl e \<Rightarrow> Inl e
                | Inr (a, st3) \<Rightarrow>
                    (case argument el st3 y of
                       Inl e \<Rightarrow> Inl e
                     | Inr (b, st4) \<Rightarrow> Inr (apply_tag el t a b, st4)))))"

section \<open>Composition\<close>

text \<open>
  The operator symbols: the compound forms \<open>+= -= *= /= |= &= ^= <<= >>=\<close>, the binary
  forms \<open>+ - * / | & ^ << >>\<close>, and \<open>&& || == != < <= > >=\<close>.
\<close>

datatype operator_symbol =
    Compound arith_operator
  | Binary arith_operator
  | Relational rel_operator

text \<open>
  The constructor \<^verbatim>\<open>BinaryExpression(LeftExpr l, RightExpr r) : m_left(std::forward<LeftExpr>(l)), m_right(std::forward<RightExpr>(r)) {}\<close>.
  Every operator instantiates it with reference types (\<open>const Container&\<close>,
  \<open>const BinaryExpression&\<close>, \<open>decltype(std::forward<RE>(re))\<close>), so it binds two references
  and touches neither the memory nor the log.
\<close>

definition BinaryExpression_new ::
  "'a state \<Rightarrow> operand \<Rightarrow> tag \<Rightarrow> operand \<Rightarrow> binary_expression \<times> 'a state" where
  "BinaryExpression_new st l t r = (BinaryExpression l t r, st)"

text \<open>
  \<open>CREATE_BINARY_EXPRESSION_OPERATOR(xi_operator)\<close>, instantiated for each of the 26
  symbols: the member \<open>operator xi_operator(RE&& re) const\<close> of a node returns
  \<^verbatim>\<open>BinaryExpression<const BinaryExpression<LeftExpr, BinaryOp, RightExpr>&, BinaryOp, decltype(std::forward<RE>(re))>(*this, std::forward<RE>(re))\<close>.
  The tag of the new node is \<open>BinaryOp\<close>, the tag of the node the operator is called on.
\<close>

definition BinaryExpression_operator ::
  "operator_symbol \<Rightarrow> 'a state \<Rightarrow> binary_expression \<Rightarrow> operand \<Rightarrow> binary_expression \<times> 'a state" where
  "BinaryExpression_operator xi_operator st this re =
     BinaryExpression_new st (Expression this) (BinaryOp this) re"

text \<open>
  The node-building member operators that \<open>Container\<close> declares, by symbol, each with
  the tag of its return type, in the order of the source. Under the comment
  \<open>'&'/'&=' overload\<close> stands \<open>operator &\<close> with \<open>LAND\<close>; under the comment
  \<open>'|'/'|=' overload\<close> stands a second \<open>operator &\<close>, with \<open>LOR\<close>; no \<open>operator |\<close> is
  declared. There is none for \<open>&&\<close> and \<open>||\<close>, and the compound symbols of \<open>Container\<close>
  are the materialising operators below, which take an expression or a scalar.
\<close>

fun Container_operators :: "operator_symbol \<Rightarrow> tag list" where
  "Container_operators (Binary Plus) = [Arith ADD]"
| "Container_operators (Binary Minus) = [Arith SUB]"
| "Container_operators (Binary Times) = [Arith MUL]"
| "Container_operators (Binary Slash) = [Arith DIV]"
| "Container_operators (Binary Amp) = [Arith LAND, Arith LOR]"
| "Container_operators (Binary Bar) = []"
| "Container_operators (Binary Caret) = [Arith LXOR]"
| "Container_operators (Binary ShiftLeft) = [Arith SHL]"
| "Container_operators (Binary ShiftRight) = [Arith SHR]"
| "Container_operators (Relational EqEq) = [Rel EQ]"
| "Container_operators (Relational NotEq) = [Rel NEQ]"
| "Container_operators (Relational Less) = [Rel LT]"
| "Container_operators (Relational LessEq) = [Rel LE]"
| "Container_operators (Relational Greater) = [Rel GT]"
| "Container_operators (Relational GreaterEq) = [Rel GE]"
| "Container_operators (Relational AmpAmp) = []"
| "Container_operators (Relational BarBar) = []"
| "Container_operators (Compound s) = []"

text \<open>
  \<open>this xi_operator xi_expression\<close> on a wrapper. The overloads of one symbol have the same
  parameter list, so overload resolution succeeds exactly when there is one; it then
  returns \<^verbatim>\<open>BinaryExpression<const Container&, TAG<value_type>, decltype(std::forward<RightExpr>(xi_expression))>(*this, std::forward<RightExpr>(xi_expression))\<close>.
\<close>

definition Container_operator ::
  "operator_symbol \<Rightarrow> 'a state \<Rightarrow> Container \<Rightarrow> operand \<Rightarrow> error + binary_expression \<times> 'a state" where
  "Container_operator xi_operator st this xi_expression =
     (case Container_operators xi_operator of
        [] \<Rightarrow> Inl NoMatchingOverload
      | [t] \<Rightarrow> Inr (BinaryExpression_new st (Wrapper this) t xi_expression)
      | _ \<Rightarrow> Inl AmbiguousOverload)"

text \<open>
  A chain \<open>w op\<^sub>1 x\<^sub>1 op\<^sub>2 x\<^sub>2 \<dots>\<close> of left-associative operators of one precedence
  starting at a wrapper: the first operator is the wrapper's, each later one the member
  operator of the node built so far.
\<close>

fun extend_chain ::
  "'a state \<Rightarrow> binary_expression \<Rightarrow> (operator_symbol \<times> operand) list \<Rightarrow> binary_expression \<times> 'a state" where
  "extend_chain st e [] = (e, st)"
| "extend_chain st e ((xi_operator, x) # rest) =
     (case BinaryExpression_operator xi_operator st e x of (e', st') \<Rightarrow> extend_chain st' e' rest)"

fun compose_chain ::
  "'a state \<Rightarrow> Container \<Rightarrow> operator_symbol \<times> operand \<Rightarrow> (operator_symbol \<times> operand) list \<Rightarrow>
   error + binary_expression \<times> 'a state" where
  "compose_chain st w (xi_operator, x) rest =
     (case Container_operator xi_operator st w x of
        Inl e \<Rightarrow> Inl e
      | Inr (e, st') \<Rightarrow> Inr (extend_chain st' e rest))"

section \<open>Materialisation\<close>

text \<open>The standard constructor \<^verbatim>\<open>Container(COLLECTION& xi_col) : m_container(xi_col) {}\<close>.\<close>

definition Container_new :: "nat \<Rightarrow> Container" where
  "Container_new xi_col = \<lparr>m_container = Some xi_col\<rparr>"

text \<open>
  The right-hand side \<open>std::move(xi_expression[i])\<close> as the element's assignment or
  compound assignment takes it: the value of a temporary \<open>T\<close>, the element behind a
  reference (read once), or what the element type makes of a \<open>bool\<close>.
\<close>

fun assigned :: "'a element \<Rightarrow> 'a state \<Rightarrow> 'a indexed \<Rightarrow> error + 'a \<times> 'a state" where
  "assigned el st (Temporary v) = Inr (v, st)"
| "assigned el st (Reference c i) =
     Inr (memory st c ! i, st\<lparr>leaf_reads := leaf_reads st @ [(c, i)]\<rparr>)"
| "assigned el st (Boolean b) =
     (case assigned_bool el b of None \<Rightarrow> Inl NoConversion | Some v \<Rightarrow> Inr (v, st))"

text \<open>
  The loop every materialising member runs,
  \<^verbatim>\<open>for (std::size_t i{}; i < m_container.size(); ++i) { m_container[i] OP std::move(xi_expression[i]); }\<close>
  from index \<open>i\<close> on. \<open>OP\<close> is \<open>=\<close> or a compound assignment; \<open>update old v\<close> is the value it
  leaves in the element that held \<open>old\<close>.
\<close>

function materialise ::
  "'a element \<Rightarrow> ('a \<Rightarrow> 'a \<Rightarrow> 'a) \<Rightarrow> Container \<Rightarrow> binary_expression \<Rightarrow> nat \<Rightarrow> 'a state \<Rightarrow>
   error + 'a state" where
  "materialise el update this xi_expression i st =
     (case m_container this of
        None \<Rightarrow> Inl UnboundReference
      | Some d \<Rightarrow>
          if i < length (memory st d) then
            (case index_expression el st xi_expression i of
               Inl e \<Rightarrow> Inl e
             | Inr (x, st1) \<Rightarrow>
                 (case assigned el st1 x of
                    Inl e \<Rightarrow> Inl e
                  | Inr (v, st2) \<Rightarrow>
                      (case collection_index st2 d i of
                         Inl e \<Rightarrow> Inl e
                       | Inr (d', i') \<Rightarrow>
                           materialise el update this xi_expression (Suc i)
                             (store_through st2 (Reference d' i')
                                (update (memory st2 d' ! i') v)))))
          else Inr st)"
  by pat_completeness auto

text \<open>Indexing and argument passing leave the memory as it is; they only extend the log.\<close>

lemma collection_index_Inr:
  "collection_index st c i = Inr p \<Longrightarrow> p = (c, i) \<and> i < length (memory st c)"
  by (simp add: collection_index_def split: if_splits)

lemma Container_index_memory:
  "Container_index st w i = Inr (x, st') \<Longrightarrow> memory st' = memory st"
  by (auto simp: Container_index_def split: option.splits sum.splits)

lemma argument_memory:
  "argument el st x = Inr (a, st') \<Longrightarrow> memory st' = memory st"
  by (cases x) (auto split: option.splits)

lemma assigned_memory:
  "assigned el st x = Inr (v, st') \<Longrightarrow> memory st' = memory st"
  by (cases x) (auto split: option.splits)

lemma index_memory:
  "index_operand el st opd i = Inr (x, st') \<Longrightarrow> memory st' = memory st"
  "index_expression el st e i = Inr (x, st') \<Longrightarrow> memory st' = memory st"
proof (induction el st opd i and el st e i arbitrary: x st' and x st'
    rule: index_operand_index_expression.induct)
  case (1 el st w i)
  then show ?case by (simp add: Container_index_memory)
next
  case (2 el st c i)
  then show ?case by (auto split: sum.splits)
next
  case (3 el st e i)
  then show ?case by simp
next
  case (4 el st l t r i)
  from "4.prems" obtain y st1 z st2 a st3 b st4 where
    l: "index_operand el st l i = Inr (y, st1)" and
    r: "index_operand el st1 r i = Inr (z, st2)" and
    a: "argument el st2 y = Inr (a, st3)" and
    b: "argument el st3 z = Inr (b, st4)" and
    st': "st' = st4"
    by (auto split: sum.splits)
  have "memory st1 = memory st" using "4.IH"(1) l by blast
  moreover have "memory st2 = memory st1" using "4.IH"(2) l r by blast
  moreover have "memory st3 = memory st2" using a by (rule argument_memory)
  moreover have "memory st4 = memory st3" using b by (rule argument_memory)
  ultimately show ?case using st' by simp
qed

termination materialise
proof (relation "measure (\<lambda>(el, update, this, e, i, st).
    case m_container this of None \<Rightarrow> 0 | Some d \<Rightarrow> length (memory st d) - i)")
  show "wf (measure (\<lambda>(el, update, this, e, i, st).
    case m_container this of None \<Rightarrow> 0 | Some d \<Rightarrow> length (memory st d) - i))"
    by simp
next
  fix el :: "'a element" and update :: "'a \<Rightarrow> 'a \<Rightarrow> 'a" and this :: Container
    and e i and st :: "'a state" and d x1 x st1 x2 st2 v x3 d' i'
  assume bound: "m_container this = Some d" and lt: "i < length (memory st d)"
    and ix: "index_expression el st e i = Inr x1" "(x, st1) = x1"
    and ar: "assigned el st1 x = Inr x2" "(v, st2) = x2"
    and ci: "collection_index st2 d i = Inr x3" "(d', i') = x3"
  have m1: "memory st1 = memory st"
    using ix index_memory(2) [of el st e i x st1] by simp
  have m2: "memory st2 = memory st1"
    using ar assigned_memory [of el st1 x v st2] by simp
  have di: "d' = d \<and> i' = i"
    using ci collection_index_Inr [of st2 d i "(d', i')"] by simp
  show "((el, update, this, e, Suc i,
          store_through st2 (Reference d' i') (update (memory st2 d' ! i') v)),
         (el, update, this, e, i, st))
        \<in> measure (\<lambda>(el, update, this, e, i, st).
            case m_container this of None \<Rightarrow> 0 | Some d \<Rightarrow> length (memory st d) - i)"
    using bound lt m1 m2 di by simp
qed

text \<open>
  The constructor from an expression,
  \<^verbatim>\<open>Container(T&& xi_expression) noexcept { for (...) { m_container[i] = std::move(xi_expression[i]); } }\<close>,
  has no member initialiser: its \<open>m_container\<close> is bound to nothing when the loop runs.
\<close>

definition Container_from_expression ::
  "'a element \<Rightarrow> 'a state \<Rightarrow> binary_expression \<Rightarrow> error + Container \<times> 'a state" where
  "Container_from_expression el st xi_expression =
     (let this = \<lparr>m_container = None\<rparr>
      in case materialise el (\<lambda>old v. v) this xi_expression 0 st of
           Inl e \<Rightarrow> Inl e
         | Inr st' \<Rightarrow> Inr (this, st'))"

text \<open>\<^verbatim>\<open>Container& operator =(T&& xi_expression)\<close>: each element is move-assigned.\<close>

definition Container_assign ::
  "'a element \<Rightarrow> 'a state \<Rightarrow> Container \<Rightarrow> binary_expression \<Rightarrow> error + 'a state" where
  "Container_assign el st this xi_expression =
     materialise el (\<lambda>old v. v) this xi_expression 0 st"

text \<open>
  \<^verbatim>\<open>Container& operator +=(T&& xi_expression)\<close> and its eight siblings
  \<open>-= *= /= &= |= ^= <<= >>=\<close> for an expression: the same loop with the element's
  compound assignment.
\<close>

definition Container_compound_assign ::
  "'a element \<Rightarrow> arith_operator \<Rightarrow> 'a state \<Rightarrow> Container \<Rightarrow> binary_expression \<Rightarrow> error + 'a state" where
  "Container_compound_assign el s st this xi_expression =
     materialise el (binary el s) this xi_expression 0 st"

text \<open>
  Whole statements, as Test.cpp writes them: \<open>lazy_d = w op\<^sub>1 x\<^sub>1 op\<^sub>2 x\<^sub>2 \<dots>;\<close> and
  \<open>lazy_d += w op\<^sub>1 x\<^sub>1 op\<^sub>2 x\<^sub>2 \<dots>;\<close> (line 59). The right-hand side is composed first,
  then handed to the materialising operator.
\<close>

definition assign_statement ::
  "'a element \<Rightarrow> 'a state \<Rightarrow> Container \<Rightarrow> Container \<Rightarrow> operator_symbol \<times> operand \<Rightarrow>
   (operator_symbol \<times> operand) list \<Rightarrow> error + 'a state" where
  "assign_statement el st lazy_d w first rest =
     (case compose_chain st w first rest of
        Inl e \<Rightarrow> Inl e
      | Inr (e, st') \<Rightarrow> Container_assign el st' lazy_d e)"

definition compound_statement ::
  "'a element \<Rightarrow> arith_operator \<Rightarrow> 'a state \<Rightarrow> Container \<Rightarrow> Container \<Rightarrow> operator_symbol \<times> operand \<Rightarrow>
   (operator_symbol \<times> operand) list \<Rightarrow> error + 'a state" where
  "compound_statement el s st lazy_d w first rest =
     (case compose_chain st w first rest of
        Inl e \<Rightarrow> Inl e
      | Inr (e, st') \<Rightarrow> Container_compound_assign el s st' lazy_d e)"

text \<open>
  The naive elementwise loops the fused ones are compared with, written on the
  collections themselves: \<^verbatim>\<open>for (i = 0; i < d.size(); ++i) d[i] = a[i] + b[i] + c[i];\<close>
  and, as in Test.cpp (lines 65 to 67), \<^verbatim>\<open>d[i] += a[i] + b[i] + c[i];\<close>.
\<close>

definition naive_assign ::
  "'a element \<Rightarrow> nat \<Rightarrow> nat \<Rightarrow> nat \<Rightarrow> nat \<Rightarrow> (nat \<Rightarrow> 'a list) \<Rightarrow> nat \<Rightarrow> 'a list" where
  "naive_assign el d a b c mem =
     fold (\<lambda>i m. m(d := (m d)[i :=
             binary el Plus (binary el Plus (m a ! i) (m b ! i)) (m c ! i)]))
       [0..<length (mem d)] mem"

definition naive_add_assign ::
  "'a element \<Rightarrow> nat \<Rightarrow> nat \<Rightarrow> nat \<Rightarrow> nat \<Rightarrow> (nat \<Rightarrow> 'a list) \<Rightarrow> nat \<Rightarrow> 'a list" where
  "naive_add_assign el d a b c mem =
     fold (\<lambda>i m. m(d := (m d)[i :=
             binary el Plus (m d ! i)
               (binary el Plus (binary el Plus (m a ! i) (m b ! i)) (m c ! i))]))
       [0..<length (mem d)] mem"

text \<open>The collections an expression reads: the leaves of its tree, with repetitions.\<close>

fun leaves_operand :: "operand \<Rightarrow> nat list"
and leaves_expression :: "binary_expression \<Rightarrow> nat list" where
  "leaves_operand (Wrapper w) = (case m_container w of None \<Rightarrow> [] | Some c \<Rightarrow> [c])"
| "leaves_operand (Collection c) = [c]"
| "leaves_operand (Expression e) = leaves_expression e"
| "leaves_expression (BinaryExpression l t r) = leaves_operand l @ leaves_operand r"

text \<open>The statement \<open>w[i] = v;\<close> on a wrapper, and \<open>c[i] = v;\<close> on the collection itself.\<close>

definition Container_index_assign :: "'a state \<Rightarrow> Container \<Rightarrow> nat \<Rightarrow> 'a \<Rightarrow> error + 'a state" where
  "Container_index_assign st w i v =
     (case Container_index st w i of
        Inl e \<Rightarrow> Inl e
      | Inr (x, st') \<Rightarrow> Inr (store_through st' x v))"

definition collection_index_assign :: "'a state \<Rightarrow> nat \<Rightarrow> nat \<Rightarrow> 'a \<Rightarrow> error + 'a state" where
  "collection_index_assign st c i v =
     (case collection_index st c i of
        Inl e \<Rightarrow> Inl e
      | Inr (c', i') \<Rightarrow> Inr (store_through st (Reference c' i') v))"

text \<open>
  The collections of the scenarios: 0, 1, 2 and 3 are the integer collections
  \<open>A = [1,2,3]\<close>, \<open>B = [10,20,30]\<close>, \<open>C = [100,200,300]\<close> and \<open>D = [0,0,0]\<close>; for text,
  0 and 1 are \<open>A = ["x","x"]\<close> and \<open>B = ["y","y"]\<close>, and 2 is a destination of two
  empty strings; for levels, 0 and 1 are \<open>A = [10]\<close> and \<open>B = [-5]\<close>, and 2 is \<open>D = [5]\<close>.
\<close>

definition integers :: "int32_t state" where
  "integers = \<lparr>memory = (\<lambda>c. if c = 0 then [1, 2, 3] else if c = 1 then [10, 20, 30]
                              else if c = 2 then [100, 200, 300] else if c = 3 then [0, 0, 0]
                              else []),
                leaf_reads = []\<rparr>"

definition texts :: "string state" where
  "texts = \<lparr>memory = (\<lambda>c. if c = 0 then [''x'', ''x''] else if c = 1 then [''y'', ''y'']
                           else if c = 2 then [[], []] else []),
             leaf_reads = []\<rparr>"

definition levels :: "int state" where
  "levels = \<lparr>memory = (\<lambda>c. if c = 0 then [10] else if c = 1 then [- 5]
                            else if c = 2 then [5] else []),
              leaf_reads = []\<rparr>"

section \<open>The operation tags\<close>

lemma apply_arith_result:
  "result (apply_arith el t (Lvalue, a) (Lvalue, b)) = binary el (arith_operator_of t) a b"
  "result (apply_arith el t (Rvalue, a) (Lvalue, b)) = binary el (arith_operator_of t) a b"
  "result (apply_arith el t (Lvalue, a) (Rvalue, b)) = binary el (arith_operator_of t) b a"
  "result (apply_arith el t (Rvalue, a) (Rvalue, b)) = binary el (arith_operator_of t) a b"
  by (simp_all add: Let_def)

lemma apply_arith_Rvalue_left:
  "result (apply_arith el t (Rvalue, a) (cb, b)) = binary el (arith_operator_of t) a b"
  by (cases cb) (simp_all add: Let_def)

lemma apply_arith_const_operand:
  "left_after (apply_arith el t (Lvalue, a) (cb, b)) = a"
  "right_after (apply_arith el t (ca, a) (Lvalue, b)) = b"
  by (cases cb; simp add: Let_def) (cases ca; simp add: Let_def)

lemma apply_arith_reuses_temporary:
  "left_after (apply_arith el t (Rvalue, a) (cb, b)) =
     moved_from el (binary el (arith_operator_of t) a b)"
  by (cases cb) (simp_all add: Let_def)

text \<open>
  C4. The claim: for each arithmetic and bitwise tag, each of the four \<open>apply\<close> overloads
  returns \<open>a op b\<close>. Three of them do (\<open>apply_arith_result\<close>); the overload
  \<open>apply(const T& a, T&& b)\<close> runs \<open>b op= a\<close> and returns \<open>b op a\<close>. Evaluated here:
  \<open>SUB<int32_t>::apply\<close> on the lvalue 5 and the temporary 3 returns \<open>3 - 5 = -2\<close>, where
  the plain overload returns 2, and \<open>ADD<std::string>::apply\<close> on the lvalue \<open>"x"\<close> and the
  temporary \<open>"y"\<close> returns \<open>"yx"\<close>, where the plain overload returns \<open>"xy"\<close>.
\<close>

theorem apply_const_rvalue_overload_swaps:
  "result (apply_arith int32 SUB (Lvalue, 5) (Rvalue, 3)) = - 2 \<and>
   result (apply_arith int32 SUB (Lvalue, 5) (Lvalue, 3)) = 2 \<and>
   result (apply_arith std_string ADD (Lvalue, ''x'') (Rvalue, ''y'')) = ''yx'' \<and>
   result (apply_arith std_string ADD (Lvalue, ''x'') (Lvalue, ''y'')) = ''xy''"
  by (simp add: int32_def std_string_def)

text \<open>
  C8. The logical and relational tags return a \<open>bool\<close>, the value of \<open>a op b\<close>, and
  leave both operands with the values they had, whichever of the four overloads is
  selected (lvalue or rvalue on either side).
\<close>

theorem relational_tags_keep_operands:
  "result (apply_rel el t (ca, a) (cb, b)) = relation el (rel_operator_of t) a b \<and>
   left_after (apply_rel el t (ca, a) (cb, b)) = a \<and>
   right_after (apply_rel el t (ca, a) (cb, b)) = b"
  by (cases ca; cases cb) simp_all

theorem relational_tags_keep_operands_witness:
  "result (apply_rel int32 LT (Rvalue, 2) (Rvalue, 7)) = True \<and>
   left_after (apply_rel int32 LT (Rvalue, 2) (Rvalue, 7)) = 2 \<and>
   right_after (apply_rel int32 LT (Rvalue, 2) (Rvalue, 7)) = 7"
  using relational_tags_keep_operands [of int32 LT Rvalue 2 Rvalue 7]
  by (simp add: int32_def)

section \<open>Composition builds nodes and nothing else\<close>

lemma BinaryExpression_operator_tag:
  "BinaryOp (fst (BinaryExpression_operator xi_operator st e x)) = BinaryOp e"
  by (simp add: BinaryExpression_operator_def BinaryExpression_new_def)

lemma BinaryExpression_operator_state:
  "snd (BinaryExpression_operator xi_operator st e x) = st"
  by (simp add: BinaryExpression_operator_def BinaryExpression_new_def)

lemma extend_chain_state: "snd (extend_chain st e rest) = st"
  by (induction rest arbitrary: e)
    (auto simp: BinaryExpression_operator_def BinaryExpression_new_def)

lemma Container_operator_state:
  "Container_operator xi_operator st w x = Inr r \<Longrightarrow> snd r = st"
  by (auto simp: Container_operator_def BinaryExpression_new_def split: list.splits)

lemma compose_chain_state:
  "compose_chain st w first rest = Inr r \<Longrightarrow> snd r = st"
  by (cases first) (auto simp: extend_chain_state dest!: Container_operator_state split: sum.splits)

text \<open>
  C3. The claim: composing a node \<open>E\<close> with an operand \<open>R\<close> through the overload of an
  operator \<open>op\<close> gives a node that evaluates to \<open>E[i] op R[i]\<close>, carrying the tag of \<open>op\<close>.
  The macro gives the new node the tag of \<open>E\<close> whatever the symbol
  (\<open>BinaryExpression_operator_tag\<close>). Evaluated here on \<open>A = [1,2,3]\<close>, \<open>B = [10,20,30]\<close>,
  \<open>C = [100,200,300]\<close>: the node built by \<open>(A + B) - C\<close> has the tag \<open>ADD\<close>, and
  \<open>D = A + B - C\<close> leaves \<open>D = [111, 222, 333]\<close>, the sums, where the differences are
  \<open>[-89, -178, -267]\<close>.
\<close>

theorem expression_operator_keeps_tag_of_node:
  "BinaryOp (fst (BinaryExpression_operator (Binary Minus) integers
      (BinaryExpression (Wrapper (Container_new 0)) (Arith ADD) (Wrapper (Container_new 1)))
      (Wrapper (Container_new 2)))) = Arith ADD \<and>
   map_sum id (\<lambda>st. memory st 3)
     (assign_statement int32 integers (Container_new 3) (Container_new 0)
        (Binary Plus, Wrapper (Container_new 1)) [(Binary Minus, Wrapper (Container_new 2))])
     = Inr [111, 222, 333] \<and>
   map (\<lambda>i. binary int32 Minus (binary int32 Plus (memory integers 0 ! i) (memory integers 1 ! i))
              (memory integers 2 ! i)) [0, 1, 2] = [- 89, - 178, - 267]"
  by (simp add: BinaryExpression_operator_def BinaryExpression_new_def assign_statement_def
      Container_operator_def Container_assign_def Container_new_def integers_def int32_def
      Container_index_def collection_index_def)

text \<open>
  C6. The claim: the binary operator \<open>|\<close> on a wrapper returns a node with the
  bitwise-or tag. \<open>Container\<close> declares no \<open>operator |\<close>: the overload that returns the
  \<open>LOR\<close> node is declared as a second \<open>operator &\<close>. So \<open>w | x\<close> finds no overload, for
  any wrapper and operand, and \<open>w & x\<close> finds two.
\<close>

theorem wrapper_has_no_bitwise_or_operator:
  "Container_operator (Binary Bar) st w x = Inl NoMatchingOverload \<and>
   Container_operator (Binary Amp) st w x = Inl AmbiguousOverload \<and>
   Container_operators (Binary Amp) = [Arith LAND, Arith LOR]"
  by (simp add: Container_operator_def)

text \<open>
  C9. Composition has no side effects: an operator applied to a node, an operator
  applied to a wrapper, and a whole chain of them, whenever they build a node, return the
  state they were given, so every collection holds the elements it held and nothing was
  read.
\<close>

theorem composition_leaves_state:
  "snd (BinaryExpression_operator xi_operator st e x) = st \<and>
   (\<forall>r. Container_operator xi_operator st w x = Inr r \<longrightarrow> snd r = st) \<and>
   (\<forall>r. compose_chain st w first rest = Inr r \<longrightarrow>
      memory (snd r) = memory st \<and> leaf_reads (snd r) = leaf_reads st)"
  using BinaryExpression_operator_state Container_operator_state compose_chain_state
  by metis

theorem composition_leaves_state_witness:
  "\<exists>r. compose_chain integers (Container_new 0) (Binary Plus, Wrapper (Container_new 1))
          [(Binary Plus, Wrapper (Container_new 2))] = Inr r \<and>
       memory (snd r) = memory integers \<and> leaf_reads (snd r) = leaf_reads integers"
proof -
  have "\<exists>r. compose_chain integers (Container_new 0) (Binary Plus, Wrapper (Container_new 1))
          [(Binary Plus, Wrapper (Container_new 2))] = Inr r"
    by (simp add: Container_operator_def BinaryExpression_operator_def BinaryExpression_new_def)
  then obtain r where r: "compose_chain integers (Container_new 0)
      (Binary Plus, Wrapper (Container_new 1)) [(Binary Plus, Wrapper (Container_new 2))] = Inr r"
    by blast
  from composition_leaves_state [of _ integers _ _ "Container_new 0"
      "(Binary Plus, Wrapper (Container_new 1))" "[(Binary Plus, Wrapper (Container_new 2))]"] r
  have "memory (snd r) = memory integers \<and> leaf_reads (snd r) = leaf_reads integers"
    by blast
  with r show ?thesis by blast
qed

section \<open>Indexing a wrapper\<close>

text \<open>
  C10. Both overloads of the wrapper's \<open>operator[]\<close> have the body \<open>return m_container[i];\<close>
  and the return type \<open>auto\<close>. For an index in range, \<open>w[i]\<close> is a temporary holding the
  value of \<open>c[i]\<close>, read once; \<open>w[i] = v\<close> assigns to that temporary and leaves the memory
  as it was, where \<open>c[i] = v\<close> on the collection itself writes the element.
\<close>

theorem wrapper_index_returns_copy:
  "i < length (memory st c) \<Longrightarrow>
   Container_index st (Container_new c) i =
     Inr (Temporary (memory st c ! i), st\<lparr>leaf_reads := leaf_reads st @ [(c, i)]\<rparr>) \<and>
   Container_index_assign st (Container_new c) i v =
     Inr (st\<lparr>leaf_reads := leaf_reads st @ [(c, i)]\<rparr>) \<and>
   collection_index_assign st c i v =
     Inr (st\<lparr>memory := (memory st)(c := (memory st c)[i := v])\<rparr>)"
  by (simp add: Container_index_def Container_index_assign_def collection_index_assign_def
      collection_index_def Container_new_def)

theorem wrapper_index_returns_copy_witness:
  "map_sum id fst (Container_index integers (Container_new 1) 2) = Inr (Temporary 30) \<and>
   map_sum id (\<lambda>st. memory st 1) (Container_index_assign integers (Container_new 1) 2 99)
     = Inr [10, 20, 30] \<and>
   map_sum id (\<lambda>st. memory st 1) (collection_index_assign integers 1 2 99)
     = Inr [10, 20, 99]"
proof -
  have h: "2 < length (memory integers 1)" by (simp add: integers_def)
  show ?thesis
    using wrapper_index_returns_copy [OF h, of 99] by (simp add: integers_def)
qed

section \<open>Materialisation\<close>

text \<open>
  C5. The claim: constructing a wrapper from an expression materialises it into the
  wrapper's own bound collection, so that \<open>Wrapper(A + B)\<close> on \<open>A = ["x","x"]\<close>,
  \<open>B = ["y","y"]\<close> fills a destination of size 2 with \<open>["xy","xy"]\<close>. The constructor runs
  the loop, but binds \<open>m_container\<close> to nothing first: for every element type, state and
  expression the loop has no collection to take a size from or to write, and no
  destination is filled. Assigning the same expression to a wrapper that the standard
  constructor bound to the destination does give \<open>["xy","xy"]\<close>.
\<close>

theorem constructor_from_expression_is_unbound:
  "Container_from_expression el st e = Inl UnboundReference \<and>
   Container_from_expression std_string texts
     (BinaryExpression (Wrapper (Container_new 0)) (Arith ADD) (Wrapper (Container_new 1)))
     = Inl UnboundReference \<and>
   map_sum id (\<lambda>st. memory st 2)
     (assign_statement std_string texts (Container_new 2) (Container_new 0)
        (Binary Plus, Wrapper (Container_new 1)) []) = Inr [''xy'', ''xy'']"
  by (simp add: Container_from_expression_def BinaryExpression_new_def assign_statement_def
      Container_operator_def Container_assign_def Container_new_def texts_def std_string_def
      Container_index_def collection_index_def)

text \<open>
  From here on the loop is unfolded by hand, one iteration at a time.
\<close>

declare materialise.simps [simp del]

lemma update_after_prefix:
  "length ys = i \<Longrightarrow> i < length xs \<Longrightarrow> (ys @ drop i xs)[i := v] = (ys @ [v]) @ drop (Suc i) xs"
  by (simp add: list_update_append Cons_nth_drop_Suc [symmetric])

lemma index_sum2:
  assumes "j < length (memory st a)" "j < length (memory st b)"
  shows "index_expression el st
           (BinaryExpression (Wrapper (Container_new a)) (Arith ADD) (Wrapper (Container_new b))) j
         = Inr (Temporary (binary el Plus (memory st a ! j) (memory st b ! j)),
                st\<lparr>leaf_reads := leaf_reads st @ [(a, j), (b, j)]\<rparr>)"
  using assms by (simp add: Container_index_def collection_index_def Container_new_def Let_def)

lemma index_sum3:
  assumes "j < length (memory st a)" "j < length (memory st b)" "j < length (memory st c)"
  shows "index_expression el st
           (BinaryExpression
              (Expression (BinaryExpression (Wrapper (Container_new a)) (Arith ADD)
                             (Wrapper (Container_new b))))
              (Arith ADD) (Wrapper (Container_new c))) j
         = Inr (Temporary (binary el Plus (binary el Plus (memory st a ! j) (memory st b ! j))
                             (memory st c ! j)),
                st\<lparr>leaf_reads := leaf_reads st @ [(a, j), (b, j), (c, j)]\<rparr>)"
  using assms by (simp add: Container_index_def collection_index_def Container_new_def Let_def)

lemma compose_sum2:
  "compose_chain st (Container_new a) (Binary Plus, Wrapper (Container_new b)) [] =
     Inr (BinaryExpression (Wrapper (Container_new a)) (Arith ADD) (Wrapper (Container_new b)), st)"
  by (simp add: Container_operator_def BinaryExpression_new_def)

lemma compose_sum3:
  "compose_chain st (Container_new a) (Binary Plus, Wrapper (Container_new b))
     [(Binary Plus, Wrapper (Container_new c))] =
     Inr (BinaryExpression
            (Expression (BinaryExpression (Wrapper (Container_new a)) (Arith ADD)
                           (Wrapper (Container_new b))))
            (Arith ADD) (Wrapper (Container_new c)), st)"
  by (simp add: Container_operator_def BinaryExpression_new_def BinaryExpression_operator_def)

lemma naive_fold:
  fixes g :: "(nat \<Rightarrow> 'a list) \<Rightarrow> nat \<Rightarrow> 'a"
  assumes g: "\<And>m i. (\<forall>c. m c ! i = mem c ! i) \<Longrightarrow> g m i = g mem i"
  shows "k \<le> length (mem d) \<Longrightarrow>
     fold (\<lambda>i m. m(d := (m d)[i := g m i])) [0..<k] mem
       = mem(d := map (g mem) [0..<k] @ drop k (mem d))"
proof (induction k)
  case 0
  then show ?case by simp
next
  case (Suc k)
  let ?m = "mem(d := map (g mem) [0..<k] @ drop k (mem d))"
  have lt: "k < length (mem d)" using Suc.prems by simp
  have "\<forall>c. ?m c ! k = mem c ! k" using lt by (simp add: nth_append)
  then have gk: "g ?m k = g mem k" by (rule g)
  have le: "k \<le> length (mem d)" using lt by simp
  have unroll: "fold (\<lambda>i m. m(d := (m d)[i := g m i])) [0..<Suc k] mem
        = (\<lambda>m. m(d := (m d)[k := g m k])) (fold (\<lambda>i m. m(d := (m d)[i := g m i])) [0..<k] mem)"
    by simp
  have "fold (\<lambda>i m. m(d := (m d)[i := g m i])) [0..<Suc k] mem
        = ?m(d := (?m d)[k := g ?m k])"
    unfolding unroll Suc.IH [OF le] ..
  also have "\<dots> = mem(d := map (g mem) [0..<Suc k] @ drop (Suc k) (mem d))"
    using lt by (simp add: gk update_after_prefix)
  finally show ?case .
qed

lemma naive_assign_eq:
  "naive_assign el d a b c mem =
     mem(d := map (\<lambda>i. binary el Plus (binary el Plus (mem a ! i) (mem b ! i)) (mem c ! i))
               [0..<length (mem d)])"
  unfolding naive_assign_def
  using naive_fold [of mem "\<lambda>m i. binary el Plus (binary el Plus (m a ! i) (m b ! i)) (m c ! i)"
      "length (mem d)" d]
  by simp

lemma naive_add_assign_eq:
  "naive_add_assign el d a b c mem =
     mem(d := map (\<lambda>i. binary el Plus (mem d ! i)
                     (binary el Plus (binary el Plus (mem a ! i) (mem b ! i)) (mem c ! i)))
               [0..<length (mem d)])"
  unfolding naive_add_assign_def
  using naive_fold [of mem "\<lambda>m i. binary el Plus (m d ! i)
      (binary el Plus (binary el Plus (m a ! i) (m b ! i)) (m c ! i))" "length (mem d)" d]
  by simp

text \<open>
  The loop invariant. If indexing the expression at \<open>j\<close> gives \<open>g j\<close> in every state
  that agrees with the start state \<open>st\<close> on the sizes and on the elements at \<open>j\<close>, then
  after \<open>i\<close> iterations the destination holds the new values below \<open>i\<close> and the old ones
  from \<open>i\<close> on, and the loop ends with all of them new. The destination may be one of the
  expression's own leaves: iteration \<open>j\<close> reads index \<open>j\<close> only, before it is written.
\<close>

lemma materialise_loop:
  fixes st :: "'a state"
  assumes bound: "m_container this = Some d"
    and ix: "\<And>j (st' :: 'a state). j < length (memory st d) \<Longrightarrow>
          \<forall>c. length (memory st' c) = length (memory st c) \<Longrightarrow>
          \<forall>c. memory st' c ! j = memory st c ! j \<Longrightarrow>
          index_expression el st' e j =
            Inr (Temporary (g j), st'\<lparr>leaf_reads := leaf_reads st' @ rs j\<rparr>)"
    and i: "i \<le> length (memory st d)"
  shows "materialise el update this e i
           (st\<lparr>memory := (memory st)(d := map (\<lambda>j. update (memory st d ! j) (g j)) [0..<i]
                                            @ drop i (memory st d)),
               leaf_reads := leaf_reads st @ concat (map rs [0..<i])\<rparr>)
         = Inr (st\<lparr>memory := (memory st)(d := map (\<lambda>j. update (memory st d ! j) (g j))
                                                  [0..<length (memory st d)]),
                    leaf_reads := leaf_reads st @ concat (map rs [0..<length (memory st d)])\<rparr>)"
  using i
proof (induction "length (memory st d) - i" arbitrary: i)
  case 0
  then have "i = length (memory st d)" by simp
  then show ?case using bound by (simp add: materialise.simps)
next
  case (Suc k)
  let ?n = "length (memory st d)"
  let ?h = "\<lambda>j. update (memory st d ! j) (g j)"
  let ?st = "st\<lparr>memory := (memory st)(d := map ?h [0..<i] @ drop i (memory st d)),
               leaf_reads := leaf_reads st @ concat (map rs [0..<i])\<rparr>"
  from Suc.hyps(2) have lt: "i < ?n" by simp
  have len: "\<forall>c. length (memory ?st c) = length (memory st c)" using lt by simp
  have val: "\<forall>c. memory ?st c ! i = memory st c ! i" using lt by (simp add: nth_append)
  have step: "index_expression el ?st e i =
      Inr (Temporary (g i), ?st\<lparr>leaf_reads := leaf_reads ?st @ rs i\<rparr>)"
    by (rule ix [OF lt len val])
  have k: "k = ?n - Suc i" using Suc.hyps(2) by simp
  have le: "Suc i \<le> ?n" using lt by simp
  have next_state:
    "store_through (?st\<lparr>leaf_reads := leaf_reads ?st @ rs i\<rparr>) (Reference d i)
        (update (memory (?st\<lparr>leaf_reads := leaf_reads ?st @ rs i\<rparr>) d ! i) (g i))
     = st\<lparr>memory := (memory st)(d := map ?h [0..<Suc i] @ drop (Suc i) (memory st d)),
           leaf_reads := leaf_reads st @ concat (map rs [0..<Suc i])\<rparr>"
    using lt by (simp add: nth_append update_after_prefix)
  show ?case
    apply (subst materialise.simps)
    apply (simp only: bound option.case step sum.case prod.case assigned.simps)
    using lt Suc.hyps(1) [OF k le] next_state
    apply (simp add: collection_index_def)
    done
qed



lemma materialise_from_start:
  fixes st :: "'a state"
  assumes bound: "m_container this = Some d"
    and ix: "\<And>j (st' :: 'a state). j < length (memory st d) \<Longrightarrow>
          \<forall>c. length (memory st' c) = length (memory st c) \<Longrightarrow>
          \<forall>c. memory st' c ! j = memory st c ! j \<Longrightarrow>
          index_expression el st' e j =
            Inr (Temporary (g j), st'\<lparr>leaf_reads := leaf_reads st' @ rs j\<rparr>)"
  shows "materialise el update this e 0 st
         = Inr (st\<lparr>memory := (memory st)(d := map (\<lambda>j. update (memory st d ! j) (g j))
                                                  [0..<length (memory st d)]),
                    leaf_reads := leaf_reads st @ concat (map rs [0..<length (memory st d)])\<rparr>)"
proof -
  have start:
    "st\<lparr>memory := (memory st)(d := map (\<lambda>j. update (memory st d ! j) (g j)) [0..<0]
                                     @ drop 0 (memory st d)),
        leaf_reads := leaf_reads st @ concat (map rs [0..<0])\<rparr> = st"
    by simp
  have "materialise el update this e 0
          (st\<lparr>memory := (memory st)(d := map (\<lambda>j. update (memory st d ! j) (g j)) [0..<0]
                                           @ drop 0 (memory st d)),
              leaf_reads := leaf_reads st @ concat (map rs [0..<0])\<rparr>)
        = Inr (st\<lparr>memory := (memory st)(d := map (\<lambda>j. update (memory st d ! j) (g j))
                                                  [0..<length (memory st d)]),
                    leaf_reads := leaf_reads st @ concat (map rs [0..<length (memory st d)])\<rparr>)"
  proof (rule materialise_loop [OF bound])
    show "0 \<le> length (memory st d)" by simp
  qed (rule ix)
  then show ?thesis unfolding start .
qed

text \<open>
  C1. Fusion correctness: for collections \<open>a\<close>, \<open>b\<close>, \<open>c\<close> of the size of \<open>d\<close>, the
  statement \<open>lazy_d = lazy_a + lazy_b + lazy_c\<close> succeeds in one pass (each of the three
  leaves is read once at each index, in index order), leaves in memory exactly what the
  naive elementwise loop leaves, and for every index \<open>i\<close> below the size the destination
  holds \<open>(a[i] + b[i]) + c[i]\<close>, the operands taken before the statement.
\<close>

theorem fused_assignment_of_sum:
  fixes st :: "'a state"
  assumes a: "length (memory st a) = length (memory st d)"
    and b: "length (memory st b) = length (memory st d)"
    and c: "length (memory st c) = length (memory st d)"
  shows "assign_statement el st (Container_new d) (Container_new a)
           (Binary Plus, Wrapper (Container_new b)) [(Binary Plus, Wrapper (Container_new c))]
         = Inr (st\<lparr>memory := naive_assign el d a b c (memory st),
                    leaf_reads := leaf_reads st @
                      concat (map (\<lambda>i. [(a, i), (b, i), (c, i)]) [0..<length (memory st d)])\<rparr>) \<and>
         length (naive_assign el d a b c (memory st) d) = length (memory st d) \<and>
         (\<forall>i<length (memory st d).
            naive_assign el d a b c (memory st) d ! i =
              binary el Plus (binary el Plus (memory st a ! i) (memory st b ! i)) (memory st c ! i))"
proof -
  let ?e = "BinaryExpression
              (Expression (BinaryExpression (Wrapper (Container_new a)) (Arith ADD)
                             (Wrapper (Container_new b))))
              (Arith ADD) (Wrapper (Container_new c))"
  let ?g = "\<lambda>i. binary el Plus (binary el Plus (memory st a ! i) (memory st b ! i)) (memory st c ! i)"
  have ix: "index_expression el st' ?e j =
      Inr (Temporary (?g j), st'\<lparr>leaf_reads := leaf_reads st' @ [(a, j), (b, j), (c, j)]\<rparr>)"
    if "j < length (memory st d)" "\<forall>c. length (memory st' c) = length (memory st c)"
      "\<forall>c. memory st' c ! j = memory st c ! j" for j and st' :: "'a state"
  proof -
    have "j < length (memory st' a)" "j < length (memory st' b)" "j < length (memory st' c)"
      using that a b c by simp_all
    from index_sum3 [OF this, of el] that(3) show ?thesis by simp
  qed
  have bound: "m_container (Container_new d) = Some d" by (simp add: Container_new_def)
  have run: "materialise el (\<lambda>old v. v) (Container_new d) ?e 0 st =
      Inr (st\<lparr>memory := (memory st)(d := map ?g [0..<length (memory st d)]),
               leaf_reads := leaf_reads st @
                 concat (map (\<lambda>i. [(a, i), (b, i), (c, i)]) [0..<length (memory st d)])\<rparr>)"
    by (rule materialise_from_start [of "Container_new d" d st el ?e ?g
        "\<lambda>i. [(a, i), (b, i), (c, i)]" "\<lambda>old v. v", OF bound ix])
  have stmt: "assign_statement el st (Container_new d) (Container_new a)
           (Binary Plus, Wrapper (Container_new b)) [(Binary Plus, Wrapper (Container_new c))]
         = materialise el (\<lambda>old v. v) (Container_new d) ?e 0 st"
    unfolding assign_statement_def compose_sum3 Container_assign_def by simp
  show ?thesis
    unfolding stmt run naive_assign_eq by simp
qed

theorem fused_assignment_of_sum_witness:
  "map_sum id (\<lambda>st. (memory st 3, leaf_reads st))
     (assign_statement int32 integers (Container_new 3) (Container_new 0)
        (Binary Plus, Wrapper (Container_new 1)) [(Binary Plus, Wrapper (Container_new 2))])
   = Inr ([111, 222, 333],
          [(0, 0), (1, 0), (2, 0), (0, 1), (1, 1), (2, 1), (0, 2), (1, 2), (2, 2)])"
proof -
  have h: "length (memory integers 0) = length (memory integers 3)"
    "length (memory integers 1) = length (memory integers 3)"
    "length (memory integers 2) = length (memory integers 3)"
    by (simp_all add: integers_def)
  have n: "[0..<length (memory integers 3)] = [0, 1, 2]"
    by (simp add: integers_def upt_rec)
  show ?thesis
    using fused_assignment_of_sum [OF h, of int32]
    by (simp add: naive_assign_eq n) (simp add: integers_def int32_def)
qed

text \<open>
  C2. Compound assignment, in the grouping of the code: for collections \<open>a\<close>, \<open>b\<close> of the size of \<open>d\<close>,
  \<open>lazy_d += lazy_a + lazy_b\<close> succeeds and leaves \<open>d[i] + (a[i] + b[i])\<close> at every
  index, with the old \<open>d[i]\<close>: the sum of the right-hand side is formed first and then
  added to the element, as \<open>d[i] += a[i] + b[i]\<close> does. With a third collection \<open>c\<close> of
  that size, \<open>lazy_d += lazy_a + lazy_b + lazy_c\<close> leaves what the naive loop
  \<open>d[i] += a[i] + b[i] + c[i]\<close> of Test.cpp leaves. The witness is the scenario
  \<open>A = [1,2,3]\<close>, \<open>B = [10,20,30]\<close>, \<open>C = [100,200,300]\<close>, \<open>D = [0,0,0]\<close>, which ends with
  \<open>D = [111, 222, 333]\<close>.
\<close>

theorem fused_compound_assignment:
  fixes st :: "'a state"
  assumes a: "length (memory st a) = length (memory st d)"
    and b: "length (memory st b) = length (memory st d)"
  shows "compound_statement el Plus st (Container_new d) (Container_new a)
           (Binary Plus, Wrapper (Container_new b)) []
         = Inr (st\<lparr>memory := (memory st)(d :=
                      map (\<lambda>i. binary el Plus (memory st d ! i)
                                 (binary el Plus (memory st a ! i) (memory st b ! i)))
                        [0..<length (memory st d)]),
                    leaf_reads := leaf_reads st @
                      concat (map (\<lambda>i. [(a, i), (b, i)]) [0..<length (memory st d)])\<rparr>) \<and>
         (length (memory st c) = length (memory st d) \<longrightarrow>
            compound_statement el Plus st (Container_new d) (Container_new a)
              (Binary Plus, Wrapper (Container_new b)) [(Binary Plus, Wrapper (Container_new c))]
            = Inr (st\<lparr>memory := naive_add_assign el d a b c (memory st),
                       leaf_reads := leaf_reads st @
                         concat (map (\<lambda>i. [(a, i), (b, i), (c, i)])
                                   [0..<length (memory st d)])\<rparr>))"
proof -
  let ?n = "length (memory st d)"
  let ?e2 = "BinaryExpression (Wrapper (Container_new a)) (Arith ADD) (Wrapper (Container_new b))"
  let ?e3 = "BinaryExpression (Expression ?e2) (Arith ADD) (Wrapper (Container_new c))"
  let ?g2 = "\<lambda>i. binary el Plus (memory st a ! i) (memory st b ! i)"
  let ?g3 = "\<lambda>i. binary el Plus (binary el Plus (memory st a ! i) (memory st b ! i)) (memory st c ! i)"
  have bound: "m_container (Container_new d) = Some d" by (simp add: Container_new_def)
  have ix2: "index_expression el st' ?e2 j =
      Inr (Temporary (?g2 j), st'\<lparr>leaf_reads := leaf_reads st' @ [(a, j), (b, j)]\<rparr>)"
    if "j < ?n" "\<forall>c. length (memory st' c) = length (memory st c)"
      "\<forall>c. memory st' c ! j = memory st c ! j" for j and st' :: "'a state"
  proof -
    have "j < length (memory st' a)" "j < length (memory st' b)"
      using that a b by simp_all
    from index_sum2 [OF this, of el] that(3) show ?thesis by simp
  qed
  have run2: "materialise el (binary el Plus) (Container_new d) ?e2 0 st =
      Inr (st\<lparr>memory := (memory st)(d := map (\<lambda>i. binary el Plus (memory st d ! i) (?g2 i)) [0..<?n]),
               leaf_reads := leaf_reads st @ concat (map (\<lambda>i. [(a, i), (b, i)]) [0..<?n])\<rparr>)"
    by (rule materialise_from_start [of "Container_new d" d st el ?e2 ?g2
        "\<lambda>i. [(a, i), (b, i)]" "binary el Plus", OF bound ix2])
  have stmt2: "compound_statement el Plus st (Container_new d) (Container_new a)
           (Binary Plus, Wrapper (Container_new b)) []
         = materialise el (binary el Plus) (Container_new d) ?e2 0 st"
    unfolding compound_statement_def compose_sum2 Container_compound_assign_def by simp
  have first: "compound_statement el Plus st (Container_new d) (Container_new a)
           (Binary Plus, Wrapper (Container_new b)) []
         = Inr (st\<lparr>memory := (memory st)(d := map (\<lambda>i. binary el Plus (memory st d ! i) (?g2 i)) [0..<?n]),
               leaf_reads := leaf_reads st @ concat (map (\<lambda>i. [(a, i), (b, i)]) [0..<?n])\<rparr>)"
    unfolding stmt2 run2 ..
  have second: "compound_statement el Plus st (Container_new d) (Container_new a)
              (Binary Plus, Wrapper (Container_new b)) [(Binary Plus, Wrapper (Container_new c))]
            = Inr (st\<lparr>memory := naive_add_assign el d a b c (memory st),
                       leaf_reads := leaf_reads st @
                         concat (map (\<lambda>i. [(a, i), (b, i), (c, i)]) [0..<?n])\<rparr>)"
    if c: "length (memory st c) = ?n"
  proof -
    have ix3: "index_expression el st' ?e3 j =
        Inr (Temporary (?g3 j), st'\<lparr>leaf_reads := leaf_reads st' @ [(a, j), (b, j), (c, j)]\<rparr>)"
      if "j < ?n" "\<forall>c. length (memory st' c) = length (memory st c)"
        "\<forall>c. memory st' c ! j = memory st c ! j" for j and st' :: "'a state"
    proof -
      have "j < length (memory st' a)" "j < length (memory st' b)" "j < length (memory st' c)"
        using that a b c by simp_all
      from index_sum3 [OF this, of el] that(3) show ?thesis by simp
    qed
    have run3: "materialise el (binary el Plus) (Container_new d) ?e3 0 st =
        Inr (st\<lparr>memory := (memory st)(d := map (\<lambda>i. binary el Plus (memory st d ! i) (?g3 i)) [0..<?n]),
                 leaf_reads := leaf_reads st @ concat (map (\<lambda>i. [(a, i), (b, i), (c, i)]) [0..<?n])\<rparr>)"
      by (rule materialise_from_start [of "Container_new d" d st el ?e3 ?g3
          "\<lambda>i. [(a, i), (b, i), (c, i)]" "binary el Plus", OF bound ix3])
    have stmt3: "compound_statement el Plus st (Container_new d) (Container_new a)
             (Binary Plus, Wrapper (Container_new b)) [(Binary Plus, Wrapper (Container_new c))]
           = materialise el (binary el Plus) (Container_new d) ?e3 0 st"
      unfolding compound_statement_def compose_sum3 Container_compound_assign_def by simp
    show ?thesis unfolding stmt3 run3 naive_add_assign_eq ..
  qed
  show ?thesis using first second by blast
qed

theorem fused_compound_assignment_witness:
  "map_sum id (\<lambda>st. memory st 3)
     (compound_statement int32 Plus integers (Container_new 3) (Container_new 0)
        (Binary Plus, Wrapper (Container_new 1)) [(Binary Plus, Wrapper (Container_new 2))])
   = Inr [111, 222, 333] \<and>
   map_sum id (\<lambda>st. memory st 3)
     (compound_statement int32 Plus integers (Container_new 3) (Container_new 0)
        (Binary Plus, Wrapper (Container_new 1)) [])
   = Inr [11, 22, 33]"
proof -
  have h: "length (memory integers 0) = length (memory integers 3)"
    "length (memory integers 1) = length (memory integers 3)"
    by (simp_all add: integers_def)
  have c: "length (memory integers 2) = length (memory integers 3)"
    by (simp add: integers_def)
  have n: "[0..<length (memory integers 3)] = [0, 1, 2]"
    by (simp add: integers_def upt_rec)
  show ?thesis
    using fused_compound_assignment [OF h, of int32 2] c
    by (simp add: naive_add_assign_eq n) (simp add: integers_def int32_def)
qed

text \<open>
  C2, the left-nested reading. Read as C++, \<open>d[i] + a[i] + b[i]\<close> groups to the left,
  and that is not what the statement leaves for every element type: on levels with
  \<open>D = [5]\<close>, \<open>A = [10]\<close>, \<open>B = [-5]\<close>, \<open>lazy_d += lazy_a + lazy_b\<close> leaves
  \<open>5 + (10 + -5) = 10\<close>, and \<open>(5 + 10) + -5\<close> is \<open>5\<close>.
\<close>

theorem compound_assignment_left_nested_counterexample:
  "map_sum id (\<lambda>st. memory st 2)
     (compound_statement saturating Plus levels (Container_new 2) (Container_new 0)
        (Binary Plus, Wrapper (Container_new 1)) [])
   = Inr [10] \<and>
   binary saturating Plus (binary saturating Plus (memory levels 2 ! 0) (memory levels 0 ! 0))
     (memory levels 1 ! 0) = 5 \<and>
   map_sum id (\<lambda>st. memory st 2)
     (compound_statement saturating Plus levels (Container_new 2) (Container_new 0)
        (Binary Plus, Wrapper (Container_new 1)) [])
   \<noteq> Inr [binary saturating Plus
              (binary saturating Plus (memory levels 2 ! 0) (memory levels 0 ! 0))
              (memory levels 1 ! 0)]"
  by (simp add: compound_statement_def Container_operator_def BinaryExpression_new_def
      Container_compound_assign_def materialise.simps Container_new_def levels_def
      saturating_def Container_index_def collection_index_def)

text \<open>
  Where the element's \<open>+\<close> is associative, as for integers that do not overflow and for
  strings, the two groupings agree.
\<close>

lemma left_nested_when_associative:
  "\<forall>x y z. binary el Plus (binary el Plus x y) z = binary el Plus x (binary el Plus y z) \<Longrightarrow>
   binary el Plus d (binary el Plus a b) = binary el Plus (binary el Plus d a) b"
  by simp

section \<open>Reads per leaf and index\<close>

lemma count_list_distinct:
  "distinct xs \<Longrightarrow> x \<in> set xs \<Longrightarrow> count_list xs x = 1"
  by (induction xs) auto

lemma argument_reads:
  "argument el st x = Inr (a, st') \<Longrightarrow>
   count_list (leaf_reads st') p = count_list (leaf_reads st) p + pending x p"
  by (cases x) (auto split: option.splits)

lemma assigned_reads:
  "assigned el st x = Inr (v, st') \<Longrightarrow>
   count_list (leaf_reads st') p = count_list (leaf_reads st) p + pending x p"
  by (cases x) (auto split: option.splits)

lemma Container_index_reads:
  "Container_index st w i = Inr (x, st') \<Longrightarrow>
   count_list (leaf_reads st') (c, j) + pending x (c, j) =
     count_list (leaf_reads st) (c, j) +
       (if j = i then count_list (leaves_operand (Wrapper w)) c else 0)"
  by (auto simp: Container_index_def collection_index_def split: option.splits if_splits)

lemma index_reads:
  "index_operand el st opd i = Inr (x, st') \<Longrightarrow>
   count_list (leaf_reads st') (c, j) + pending x (c, j) =
     count_list (leaf_reads st) (c, j) + (if j = i then count_list (leaves_operand opd) c else 0)"
  "index_expression el st e i = Inr (x, st') \<Longrightarrow>
   count_list (leaf_reads st') (c, j) + pending x (c, j) =
     count_list (leaf_reads st) (c, j) + (if j = i then count_list (leaves_expression e) c else 0)
   \<and> pending x (c, j) = 0"
proof (induction el st opd i and el st e i arbitrary: x st' and x st'
    rule: index_operand_index_expression.induct)
  case (1 el st w i)
  then show ?case using Container_index_reads [of st w i x st' c j] by simp
next
  case (2 el st c' i)
  then show ?case by (auto simp: collection_index_def split: if_splits)
next
  case (3 el st e i)
  from "3.prems" have "index_expression el st e i = Inr (x, st')" by simp
  from "3.IH" [OF this] show ?case by (cases "j = i") auto
next
  case (4 el st l t r i)
  from "4.prems" obtain y st1 z st2 a st3 b st4 where
    l: "index_operand el st l i = Inr (y, st1)" and
    r: "index_operand el st1 r i = Inr (z, st2)" and
    a: "argument el st2 y = Inr (a, st3)" and
    b: "argument el st3 z = Inr (b, st4)" and
    st': "st' = st4" and x: "x = apply_tag el t a b"
    by (auto split: sum.splits)
  note 1 = "4.IH"(1) [OF l]
  note 2 = "4.IH"(2) [OF l refl r]
  note 3 = argument_reads [OF a, of "(c, j)"]
  note 4 = argument_reads [OF b, of "(c, j)"]
  have px: "pending x (c, j) = 0" using x by (cases t) simp_all
  show ?case using 1 2 3 4 px st' by (cases "j = i"; simp; linarith)
qed


lemma materialise_reads:
  fixes st :: "'a state"
  assumes bound: "m_container this = Some d"
  shows "materialise el update this e i st = Inr st' \<Longrightarrow>
     count_list (leaf_reads st') (c, j) =
       count_list (leaf_reads st) (c, j) +
         (if i \<le> j \<and> j < length (memory st d) then count_list (leaves_expression e) c else 0)"
proof (induction "length (memory st d) - i" arbitrary: i st)
  case 0
  then have "\<not> i < length (memory st d)" by simp
  with "0.prems" bound have "st' = st" by (simp add: materialise.simps)
  with \<open>\<not> i < length (memory st d)\<close> show ?case by simp
next
  case (Suc k)
  let ?n = "length (memory st d)"
  from Suc.hyps(2) have lt: "i < ?n" by simp
  from Suc.prems bound lt obtain x st1 v st2 where
    ix: "index_expression el st e i = Inr (x, st1)" and
    ar: "assigned el st1 x = Inr (v, st2)" and
    rec: "materialise el update this e (Suc i)
            (store_through st2 (Reference d i) (update (memory st2 d ! i) v)) = Inr st'"
    by (subst (asm) materialise.simps)
      (auto simp: collection_index_def split: sum.splits if_splits)
  let ?st = "store_through st2 (Reference d i) (update (memory st2 d ! i) v)"
  have m1: "memory st1 = memory st" using ix by (rule index_memory(2))
  have m2: "memory st2 = memory st1" using ar by (rule assigned_memory)
  have len: "length (memory ?st d) = ?n" using m1 m2 by simp
  have k: "k = length (memory ?st d) - Suc i" using Suc.hyps(2) len by simp
  have r0: "leaf_reads ?st = leaf_reads st2" by simp
  note r1 = index_reads(2) [OF ix, of c j]
  note r2 = assigned_reads [OF ar, of "(c, j)"]
  note r3 = Suc.hyps(1) [OF k rec]
  show ?case using r1 r2 r3 lt unfolding len r0
    by (cases "j = i"; simp; linarith?)
qed

text \<open>
  C7. Single pass: for an expression whose leaves are pairwise distinct collections and a
  log that starts empty, evaluating the tree at an index \<open>i\<close> of the destination reads
  element \<open>i\<close> of each leaf exactly once, and so does a whole materialisation, by \<open>=\<close> or
  by any compound assignment, whenever it succeeds (it does when the leaves have the
  destination's size, as the theorems on fusion show).
\<close>

theorem single_pass:
  fixes st :: "'a state"
  assumes dist: "distinct (leaves_expression e)"
    and leaf: "c \<in> set (leaves_expression e)"
    and bound: "m_container this = Some d"
    and i: "i < length (memory st d)"
    and fresh: "leaf_reads st = []"
  shows "(\<forall>x st'. index_expression el st e i = Inr (x, st') \<longrightarrow>
            count_list (leaf_reads st') (c, i) = 1) \<and>
         (\<forall>st'. Container_assign el st this e = Inr st' \<longrightarrow>
            count_list (leaf_reads st') (c, i) = 1) \<and>
         (\<forall>s st'. Container_compound_assign el s st this e = Inr st' \<longrightarrow>
            count_list (leaf_reads st') (c, i) = 1)"
proof -
  have once: "count_list (leaves_expression e) c = 1"
    using dist leaf by (rule count_list_distinct)
  have "count_list (leaf_reads st') (c, i) = 1"
    if "index_expression el st e i = Inr (x, st')" for x st'
    using index_reads(2) [OF that, of c i] once fresh by simp
  moreover have "count_list (leaf_reads st') (c, i) = 1"
    if "materialise el update this e 0 st = Inr st'" for update st'
    using materialise_reads [OF bound that, of c i] once fresh i by simp
  ultimately show ?thesis
    unfolding Container_assign_def Container_compound_assign_def by blast
qed

theorem single_pass_witness:
  "(\<exists>st'. Container_compound_assign int32 Plus integers (Container_new 3)
            (BinaryExpression (Wrapper (Container_new 0)) (Arith ADD) (Wrapper (Container_new 1)))
          = Inr st' \<and> count_list (leaf_reads st') (1, 2) = 1) \<and>
   (\<exists>st'. Container_assign int32 integers (Container_new 3)
            (BinaryExpression
               (Expression (BinaryExpression (Wrapper (Container_new 0)) (Arith ADD)
                              (Wrapper (Container_new 1))))
               (Arith ADD) (Wrapper (Container_new 2)))
          = Inr st' \<and> count_list (leaf_reads st') (1, 2) = 1)"
proof -
  let ?e2 = "BinaryExpression (Wrapper (Container_new 0)) (Arith ADD) (Wrapper (Container_new 1))"
  let ?e3 = "BinaryExpression (Expression ?e2) (Arith ADD) (Wrapper (Container_new 2))"
  have bound: "m_container (Container_new 3) = Some 3" by (simp add: Container_new_def)
  have i: "2 < length (memory integers 3)" by (simp add: integers_def)
  have fresh: "leaf_reads integers = []" by (simp add: integers_def)
  have d2: "distinct (leaves_expression ?e2)" "1 \<in> set (leaves_expression ?e2)"
    by (simp_all add: Container_new_def)
  have d3: "distinct (leaves_expression ?e3)" "1 \<in> set (leaves_expression ?e3)"
    by (simp_all add: Container_new_def)
  have "\<exists>st'. Container_compound_assign int32 Plus integers (Container_new 3) ?e2 = Inr st'"
    by (simp add: Container_compound_assign_def materialise.simps Container_new_def
        integers_def int32_def Container_index_def collection_index_def)
  then obtain st2 where
    run2: "Container_compound_assign int32 Plus integers (Container_new 3) ?e2 = Inr st2"
    by blast
  have "\<exists>st'. Container_assign int32 integers (Container_new 3) ?e3 = Inr st'"
    by (simp add: Container_assign_def materialise.simps Container_new_def
        integers_def int32_def Container_index_def collection_index_def)
  then obtain st3 where
    run3: "Container_assign int32 integers (Container_new 3) ?e3 = Inr st3"
    by blast
  from single_pass [OF d2 bound i fresh, of int32] run2
  have "count_list (leaf_reads st2) (1, 2) = 1" by blast
  moreover from single_pass [OF d3 bound i fresh, of int32] run3
  have "count_list (leaf_reads st3) (1, 2) = 1" by blast
  ultimately show ?thesis using run2 run3 by blast
qed

end
